theory Spec2Isabelle
  imports Complex_Main
begin

section \<open>Python exceptions\<close>

text \<open>
  The exceptions that the modelled code can raise. \<open>ValueError\<close> carries the message the
  source passes; \<open>UnboundLocalError\<close> and \<open>AttributeError\<close> carry the name of the local
  variable or attribute that is read before it is bound. \<open>ArrayFieldError\<close> stands for
  the error numpy raises when a structured array is indexed with a name that is not one of
  its fields, \<open>ArrayShapeError\<close> for the error numpy and pandas raise when the columns
  handed to a table have different lengths, and \<open>TimeValueError\<close> for the
  \<open>ValueError\<close> that \<open>astropy.time.Time\<close> raises on input it cannot convert; its message
  is the library's and is none of the messages of this code.
\<close>

datatype py_error =
    ValueError string
  | UnboundLocalError string
  | AttributeError string
  | IndexError
  | KeyError string
  | ArrayFieldError string
  | ArrayShapeError
  | TimeValueError

section \<open>monitor.py: the class LightCurve\<close>

subsection \<open>Data\<close>

text \<open>
  Python floats are modelled as real numbers. A row of the object table and a row of the
  forced-source table, with the columns that \<open>build_lightcurve_from_db\<close> reads.
\<close>

record obj_row =
  ra :: real
  dec :: real

record fs_row =
  fs_filter :: string
  obs_start :: string
  visit_id :: int
  psf_flux :: real
  psf_flux_err :: real

text \<open>
  The database interface \<open>dbConn_lc\<close> (module \<open>dbConnection\<close>, not part of the sources
  at hand): its three query methods are parameters of the model.
\<close>

record dbInterface =
  objectFromId :: "int \<Rightarrow> obj_row list"
  all_fs_visits_from_id :: "int \<Rightarrow> fs_row list"
  objectFromRaDec :: "real \<Rightarrow> real \<Rightarrow> real \<Rightarrow> obj_row list"

datatype db_call =
    ObjectFromId int
  | AllFsVisitsFromId int
  | ObjectFromRaDec real real real

text \<open>The light-curve table: one list per column, as the dictionary given to \<open>Table\<close>.\<close>

record lc_table =
  lc_bandpass :: "string list"
  lc_obsHistId :: "int list"
  lc_mjd :: "real list"
  lc_ra :: "real list"
  lc_dec :: "real list"
  lc_flux :: "real list"
  lc_flux_error :: "real list"
  lc_zp :: "real list"
  lc_zpsys :: "string list"

text \<open>
  The attribute \<open>self.lightcurve\<close>: absent from the object, bound to \<open>None\<close>, or bound
  to a table.
\<close>

datatype lc_attr = NoAttribute | PyNone | TableValue lc_table

text \<open>
  A \<open>LightCurve\<close> object, together with what the object has done to the outside: the
  database queries it has issued and the values it has printed, both oldest first.
\<close>

record LightCurve =
  dbConn_lc :: dbInterface
  lightcurve :: lc_attr
  db_calls :: "db_call list"
  printed :: "obj_row list list"

subsection \<open>The constructor (lines 50-86)\<close>

text \<open>
  \<open>__init__\<close> binds \<open>self.lightcurve = None\<close> inside the branch
  \<open>if fp_table_dir is not None\<close> only. The other attributes of that branch
  (\<open>fp_table_dir\<close>, \<open>bandpasses\<close>, \<open>visit_map\<close>, \<open>visit_mjd\<close>) are read by the
  file-based \<open>build_lightcurve\<close> alone and are not part of this model, nor is the
  registration of the bandpasses with the plotting library.
\<close>

definition init :: "dbInterface \<Rightarrow> string option \<Rightarrow> LightCurve" where
  "init dbConn fp_table_dir =
     \<lparr>dbConn_lc = dbConn,
      lightcurve = (case fp_table_dir of None \<Rightarrow> NoAttribute | Some d \<Rightarrow> PyNone),
      db_calls = [],
      printed = []\<rparr>"

subsection \<open>build_lightcurve_from_db (lines 121-157)\<close>

text \<open>The local variables \<open>obj_info\<close> and \<open>fs_info\<close>; \<open>None\<close> is "not yet bound".\<close>

record locals =
  obj_info :: "obj_row list option"
  fs_info :: "fs_row list option"

definition msg_neither :: string where
  "msg_neither = ''Must specify either objid or ra,dec location.''"

definition msg_both :: string where
  "msg_both = ''Please specify only one of objid or ra,dec location.''"

definition msg_no_match :: string where
  "msg_no_match = ''No objects within specified ra,dec range.''"

text \<open>Lines 133-135: with an object id, both tables are fetched.\<close>

definition fetch_by_objid :: "int option \<Rightarrow> LightCurve \<Rightarrow> locals \<times> LightCurve" where
  "fetch_by_objid objid self =
     (case objid of
        None \<Rightarrow> (\<lparr>obj_info = None, fs_info = None\<rparr>, self)
      | Some i \<Rightarrow>
          (\<lparr>obj_info = Some (objectFromId (dbConn_lc self) i),
            fs_info = Some (all_fs_visits_from_id (dbConn_lc self) i)\<rparr>,
           self\<lparr>db_calls := db_calls self @ [ObjectFromId i, AllFsVisitsFromId i]\<rparr>))"

text \<open>
  Lines 137-142: with a coordinate, the object is looked up; no match raises, more than
  one match prints the matches. \<open>fs_info\<close> is not assigned here.
\<close>

definition fetch_by_ra_dec ::
  "(real \<times> real) option \<Rightarrow> real \<Rightarrow> locals \<Rightarrow> LightCurve \<Rightarrow> (py_error + locals) \<times> LightCurve" where
  "fetch_by_ra_dec ra_dec tol loc self =
     (case ra_dec of
        None \<Rightarrow> (Inr loc, self)
      | Some (r, d) \<Rightarrow>
          (let found = objectFromRaDec (dbConn_lc self) r d tol;
               self1 = self\<lparr>db_calls := db_calls self @ [ObjectFromRaDec r d tol]\<rparr>
           in if length found = 0 then (Inl (ValueError msg_no_match), self1)
              else if length found > 1
                then (Inr (loc\<lparr>obj_info := Some found\<rparr>), self1\<lparr>printed := printed self1 @ [found]\<rparr>)
              else (Inr (loc\<lparr>obj_info := Some found\<rparr>), self1)))"

text \<open>
  Line 147: \<open>Time(fs_info['obs_start'], scale='utc')\<close>. The conversion of one UTC
  timestamp to a modified Julian date is the parameter \<open>to_mjd\<close>, which has no value
  for a timestamp that the library cannot read. \<open>Time\<close> raises on an empty column and
  on a column with such a timestamp.
\<close>

definition Time_mjd :: "(string \<Rightarrow> real option) \<Rightarrow> string list \<Rightarrow> py_error + real list" where
  "Time_mjd to_mjd stamps =
     (if stamps = [] then Inl TimeValueError
      else case those (map to_mjd stamps) of
             None \<Rightarrow> Inl TimeValueError
           | Some mjds \<Rightarrow> Inr mjds)"

text \<open>
  Lines 144-157: the table is assembled from \<open>fs_info\<close> and the first row of
  \<open>obj_info\<close>, in the order of the source: reading an unbound local raises
  \<open>UnboundLocalError\<close> (line 144), then the timestamps are converted (line 147), then
  \<open>obj_info['ra'][0]\<close> on an empty table raises \<open>IndexError\<close> (line 150).
\<close>

definition assemble :: "(string \<Rightarrow> real option) \<Rightarrow> locals \<Rightarrow> py_error + lc_table" where
  "assemble to_mjd loc =
     (case fs_info loc of
        None \<Rightarrow> Inl (UnboundLocalError ''fs_info'')
      | Some fs \<Rightarrow>
          (let num_results = length fs in
           case Time_mjd to_mjd (map obs_start fs) of
             Inl err \<Rightarrow> Inl err
           | Inr mjds \<Rightarrow>
               (case obj_info loc of
                  None \<Rightarrow> Inl (UnboundLocalError ''obj_info'')
                | Some [] \<Rightarrow> Inl IndexError
                | Some (ob # rest) \<Rightarrow>
                    Inr \<lparr>lc_bandpass = map (\<lambda>x. ''lsst'' @ fs_filter x) fs,
                         lc_obsHistId = map visit_id fs,
                         lc_mjd = mjds,
                         lc_ra = replicate num_results (ra ob),
                         lc_dec = replicate num_results (dec ob),
                         lc_flux = map psf_flux fs,
                         lc_flux_error = map psf_flux_err fs,
                         lc_zp = replicate num_results 25.0,
                         lc_zpsys = replicate num_results ''ab''\<rparr>)))"

text \<open>
  The method. The result is the exception raised, if any, and the object after the call.
\<close>

definition build_lightcurve_from_db ::
  "(string \<Rightarrow> real option) \<Rightarrow> int option \<Rightarrow> (real \<times> real) option \<Rightarrow> real \<Rightarrow> LightCurve
     \<Rightarrow> py_error option \<times> LightCurve" where
  "build_lightcurve_from_db to_mjd objid ra_dec tol self =
     (if objid = None \<and> ra_dec = None then (Some (ValueError msg_neither), self)
      else if objid \<noteq> None \<and> ra_dec \<noteq> None then (Some (ValueError msg_both), self)
      else
        (case fetch_by_objid objid self of
           (loc1, self1) \<Rightarrow>
             (case fetch_by_ra_dec ra_dec tol loc1 self1 of
                (Inl e, self2) \<Rightarrow> (Some e, self2)
              | (Inr loc2, self2) \<Rightarrow>
                  (case assemble to_mjd loc2 of
                     Inl e \<Rightarrow> (Some e, self2)
                   | Inr t \<Rightarrow> (None, self2\<lparr>lightcurve := TableValue t\<rparr>)))))"

subsection \<open>visualize_lightcurve (lines 159-168)\<close>

text \<open>
  Reading \<open>self.lightcurve\<close> on an object that has no such attribute raises
  \<open>AttributeError\<close>. The plotting routine \<open>sncosmo.plot_lc\<close> is the parameter \<open>plot_lc\<close>.
\<close>

definition msg_not_built :: string where
  "msg_not_built = ''No lightcurve yet. Use build_lightcurve first.''"

definition visualize_lightcurve :: "(lc_table \<Rightarrow> 'fig) \<Rightarrow> LightCurve \<Rightarrow> py_error + 'fig" where
  "visualize_lightcurve plot_lc self =
     (case lightcurve self of
        NoAttribute \<Rightarrow> Inl (AttributeError ''lightcurve'')
      | PyNone \<Rightarrow> Inl (ValueError msg_not_built)
      | TableValue t \<Rightarrow> Inr (plot_lc t))"

section \<open>CreateTruthDB.py: the class TrueStars\<close>

subsection \<open>Data\<close>

text \<open>
  The metadata of one visit: the entries of \<open>OpsimMetaData\<close> that the code reads, and the
  pointing that the catalog query depends on.
\<close>

record obs_md =
  obsHistID :: int
  opsim_filter :: string
  fiveSigmaDepth :: real
  pointingRA :: real
  pointingDec :: real

text \<open>
  A star of the cached truth table: the catalog columns that \<open>get_true_stars\<close> reads from
  \<open>chunk_data\<close>, and the column \<open>gmag\<close> that its query constraint names.
\<close>

record star =
  uniqueId :: int
  raJ2000 :: real
  decJ2000 :: real
  sedFilepath :: string
  phoSimMagNorm :: real
  galacticAv :: real
  gmag :: real

text \<open>
  The constraint handed to the catalog is an SQL condition; \<open>ColumnGt c v\<close> is the
  condition \<open>c > v\<close>, so the source's \<open>'gmag > 11'\<close> is \<open>ColumnGt ''gmag'' 11\<close>.
\<close>

datatype sql_cond = ColumnGt string real

definition star_constraint :: sql_cond where
  "star_constraint = ColumnGt ''gmag'' 11"

text \<open>A spectral energy distribution: file, magnitude normalisation, extinction.\<close>

datatype sed = Sed string real real

text \<open>
  What \<open>get_true_stars\<close> takes from outside the module, as parameters:
  the observation-metadata generator, the bundled list of visits, the star table behind
  \<open>dbConn\<close>, the field of view of a visit, the column names of the catalog, the names of
  the bandpasses in \<open>bp_dict\<close> (a bandpass is identified by its name), the magnitude of one
  SED in one bandpass, and the signal-to-noise ratio of one magnitude in one bandpass at a
  five-sigma depth. The two photometric routines work on arrays element by element.
\<close>

record env =
  getObservationMetaData :: "int \<Rightarrow> real \<times> real \<Rightarrow> real \<times> real \<Rightarrow> real \<Rightarrow> obs_md list"
  selectedVisits :: "int list"
  star_cache_table :: "star list"
  in_field :: "obs_md \<Rightarrow> star \<Rightarrow> bool"
  iter_column_names :: "string list"
  bandpass_names :: "string list"
  sed_mag :: "sed \<Rightarrow> string \<Rightarrow> real"
  snr_m5 :: "real \<Rightarrow> string \<Rightarrow> real \<Rightarrow> real"

text \<open>
  numpy's division of floats does not raise on a zero divisor: the result is an infinity
  or a NaN. HOL's \<open>x / 0\<close> is \<open>0\<close>, so the non-finite result is a value of its own.
\<close>

datatype np_float = Finite real | NonFinite

definition np_divide :: "real \<Rightarrow> real \<Rightarrow> np_float" where
  "np_divide x y = (if y = 0 then NonFinite else Finite (x / y))"

text \<open>
  A row of \<open>star_df\<close>. The transposed array of line 151 holds numbers and filter names
  together and \<open>convert_objects\<close> turns the numeric columns back into numbers; the model
  keeps the value of every cell through this.
\<close>

record df_row =
  df_uniqueId :: int
  df_ra :: real
  df_dec :: real
  df_filter :: string
  true_flux :: real
  true_flux_error :: np_float
  df_obsHistId :: int

text \<open>The calls of library routines that a run makes, oldest first.\<close>

datatype lib_call =
    CatalogQuery obs_md sql_cond
  | SedListCall "star list"
  | MagArrayCall "sed list"
  | SNRCall "real list" string real

subsection \<open>The catalog query\<close>

definition star_column :: "string \<Rightarrow> star \<Rightarrow> real option" where
  "star_column c s = (if c = ''gmag'' then Some (gmag s) else None)"

fun sql_holds :: "sql_cond \<Rightarrow> star \<Rightarrow> bool" where
  "sql_holds (ColumnGt c v) s = (case star_column c s of None \<Rightarrow> False | Some x \<Rightarrow> v < x)"

text \<open>
  Modelled from the spec: the catalog class \<open>TruthCatalogPoint\<close> of
  \<open>desc.monitor.TruthCatalogDefs\<close>, which is not among the sources. The spec says that the
  builder "queries a star catalog under a magnitude constraint" for each visit's metadata:
  the lines of the catalog are the stars of the table that lie in the visit's field and
  satisfy the constraint, in table order.
\<close>

definition TruthCatalogPoint :: "env \<Rightarrow> obs_md \<Rightarrow> sql_cond \<Rightarrow> star list" where
  "TruthCatalogPoint e obs_metadata constraint =
     filter (\<lambda>s. in_field e obs_metadata s \<and> sql_holds constraint s) (star_cache_table e)"

subsection \<open>Photometry\<close>

text \<open>Line 142: \<open>np.power(10, -0.4*(mag - 22.5))\<close>.\<close>

definition flux_of_mag :: "real \<Rightarrow> real" where
  "flux_of_mag m = 10 powr (- 0.4 * (m - 22.5))"

definition sed_of :: "star \<Rightarrow> sed" where
  "sed_of s = Sed (sedFilepath s) (phoSimMagNorm s) (galacticAv s)"

definition SedList :: "star list \<Rightarrow> sed list" where
  "SedList chunk_data = map sed_of chunk_data"

text \<open>
  \<open>magArrayForSedList\<close> returns an array with one field per bandpass of \<open>bp_dict\<close>, each
  holding one magnitude per SED; a name that is not a field has no entry.
\<close>

definition magArrayForSedList :: "env \<Rightarrow> sed list \<Rightarrow> (string \<rightharpoonup> real list)" where
  "magArrayForSedList e sed_list =
     (\<lambda>f. if f \<in> set (bandpass_names e) then Some (map (\<lambda>s. sed_mag e s f) sed_list) else None)"

definition calcSNR_m5 :: "env \<Rightarrow> real list \<Rightarrow> string \<Rightarrow> real \<Rightarrow> real list" where
  "calcSNR_m5 e mags bandpass m5 = map (\<lambda>m. snr_m5 e m bandpass m5) mags"

subsection \<open>get_true_stars (lines 65-174)\<close>

text \<open>Lines 82-85: without a list of visits, the bundled list is used.\<close>

definition visit_ids :: "env \<Rightarrow> int list option \<Rightarrow> int list" where
  "visit_ids e for_obsHistIds =
     (case for_obsHistIds of None \<Rightarrow> selectedVisits e | Some ids \<Rightarrow> ids)"

text \<open>
  Lines 87-98: the first metadata record of each visit; \<open>[0]\<close> on an empty result raises
  \<open>IndexError\<close>.
\<close>

fun obs_metadata_list :: "env \<Rightarrow> int list \<Rightarrow> py_error + obs_md list" where
  "obs_metadata_list e [] = Inr []"
| "obs_metadata_list e (visit # ids) =
     (case getObservationMetaData e visit (53, 54) (-29, -27) 0.3 of
        [] \<Rightarrow> Inl IndexError
      | m # ms \<Rightarrow>
          (case obs_metadata_list e ids of
             Inl err \<Rightarrow> Inl err
           | Inr rest \<Rightarrow> Inr (m # rest)))"

text \<open>The variables of the loop over the visits (lines 100-172).\<close>

record loop_vars =
  column_names :: "string list option"
  seds_loaded :: bool
  mag_array :: "(string \<rightharpoonup> real list) option"
  star_df :: "df_row list"
  lib_calls :: "lib_call list"

definition loop_start :: loop_vars where
  "loop_start =
     \<lparr>column_names = None, seds_loaded = False, mag_array = None, star_df = [],
      lib_calls = []\<rparr>"

text \<open>Lines 151-159: one row per line of the catalog.\<close>

definition visit_df ::
  "star list \<Rightarrow> string \<Rightarrow> real list \<Rightarrow> np_float list \<Rightarrow> int \<Rightarrow> df_row list" where
  "visit_df chunk_data visit_filter flux_array flux_error obs_hist_id =
     map (\<lambda>(s, fl, fe).
            \<lparr>df_uniqueId = uniqueId s, df_ra = raJ2000 s, df_dec = decJ2000 s,
             df_filter = visit_filter, true_flux = fl, true_flux_error = fe,
             df_obsHistId = obs_hist_id\<rparr>)
         (zip chunk_data (zip flux_array flux_error))"

text \<open>
  Lines 117-172, one pass of the loop. The SEDs and the magnitudes are computed only while
  \<open>seds_loaded\<close> is false. The columns of \<open>visit_df\<close> come from this visit's catalog
  and from \<open>mag_array\<close>; when their lengths differ no table can be built from them.
  The bandpass \<open>bp_dict[visit_filter]\<close> exists whenever \<open>mag_array[visit_filter]\<close> does.
\<close>

definition visit_step :: "env \<Rightarrow> obs_md \<Rightarrow> loop_vars \<Rightarrow> py_error option \<times> loop_vars" where
  "visit_step e obs_metadata v =
     (let chunk_data = TruthCatalogPoint e obs_metadata star_constraint;
          v1 = v\<lparr>column_names :=
                    (case column_names v of None \<Rightarrow> Some (iter_column_names e) | Some c \<Rightarrow> Some c),
                  lib_calls := lib_calls v @ [CatalogQuery obs_metadata star_constraint]\<rparr>;
          v2 = (if \<not> seds_loaded v1
                then v1\<lparr>seds_loaded := True,
                        mag_array := Some (magArrayForSedList e (SedList chunk_data)),
                        lib_calls := lib_calls v1 @
                          [SedListCall chunk_data, MagArrayCall (SedList chunk_data)]\<rparr>
                else v1);
          visit_filter = opsim_filter obs_metadata
      in case mag_array v2 of
           None \<Rightarrow> (Some (UnboundLocalError ''mag_array''), v2)
         | Some ma \<Rightarrow>
             (case ma visit_filter of
                None \<Rightarrow> (Some (ArrayFieldError visit_filter), v2)
              | Some mags \<Rightarrow>
                  (let flux_array = map flux_of_mag mags;
                       five_sigma_depth = fiveSigmaDepth obs_metadata;
                       snr = calcSNR_m5 e mags visit_filter five_sigma_depth;
                       v3 = v2\<lparr>lib_calls := lib_calls v2 @
                                 [SNRCall mags visit_filter five_sigma_depth]\<rparr>;
                       flux_error = map2 np_divide flux_array snr
                   in if length chunk_data \<noteq> length flux_array then (Some ArrayShapeError, v3)
                      else (None,
                            v3\<lparr>star_df := star_df v3 @
                                 visit_df chunk_data visit_filter flux_array flux_error
                                   (obsHistID obs_metadata)\<rparr>))))"

fun visit_loop :: "env \<Rightarrow> obs_md list \<Rightarrow> loop_vars \<Rightarrow> py_error option \<times> loop_vars" where
  "visit_loop e [] v = (None, v)"
| "visit_loop e (obs_metadata # rest) v =
     (case visit_step e obs_metadata v of
        (Some err, v') \<Rightarrow> (Some err, v')
      | (None, v') \<Rightarrow> visit_loop e rest v')"

text \<open>
  A \<open>TrueStars\<close> object: the attribute \<open>star_df\<close>, which exists only once
  \<open>get_true_stars\<close> has returned.
\<close>

record TrueStars =
  star_df_attr :: "df_row list option"

text \<open>
  The method: the exception raised, if any, the object after the call, and the library
  calls made.
\<close>

definition get_true_stars ::
  "env \<Rightarrow> int list option \<Rightarrow> TrueStars \<Rightarrow> py_error option \<times> TrueStars \<times> lib_call list" where
  "get_true_stars e for_obsHistIds self =
     (case obs_metadata_list e (visit_ids e for_obsHistIds) of
        Inl err \<Rightarrow> (Some err, self, [])
      | Inr obs_list \<Rightarrow>
          (case visit_loop e obs_list loop_start of
             (Some err, v) \<Rightarrow> (Some err, self, lib_calls v)
           | (None, v) \<Rightarrow> (None, self\<lparr>star_df_attr := Some (star_df v)\<rparr>, lib_calls v)))"

subsection \<open>write_to_db (lines 176-190)\<close>

text \<open>
  A file-backed store: file name to database, database: table name to rows.
  \<open>DataFrame.to_sql\<close> with its default \<open>if_exists='fail'\<close> refuses a table name that
  is already there.
\<close>

type_synonym sqlite_db = "string \<rightharpoonup> df_row list"

type_synonym disk = "string \<rightharpoonup> sqlite_db"

definition open_db :: "disk \<Rightarrow> string \<Rightarrow> sqlite_db" where
  "open_db d filename = (case d filename of None \<Rightarrow> Map.empty | Some db \<Rightarrow> db)"

definition to_sql :: "df_row list \<Rightarrow> string \<Rightarrow> string \<Rightarrow> disk \<Rightarrow> py_error + disk" where
  "to_sql df name filename d =
     (if name \<in> dom (open_db d filename)
      then Inl (ValueError (''Table '' @ name @ '' already exists.''))
      else Inr (d(filename \<mapsto> (open_db d filename)(name \<mapsto> df))))"

definition read_sql_table :: "string \<Rightarrow> string \<Rightarrow> disk \<Rightarrow> df_row list option" where
  "read_sql_table name filename d = open_db d filename name"

text \<open>Line 190 writes to the table \<open>'stars'\<close>; the parameter \<open>table_name\<close> is not used.\<close>

definition write_to_db :: "TrueStars \<Rightarrow> string \<Rightarrow> string \<Rightarrow> disk \<Rightarrow> py_error + disk" where
  "write_to_db self filename table_name d =
     (case star_df_attr self of
        None \<Rightarrow> Inl (AttributeError ''star_df'')
      | Some df \<Rightarrow> to_sql df ''stars'' filename d)"

subsection \<open>Reference values\<close>

text \<open>
  The magnitude of a star in a bandpass, and the catalog of the first visit of a list,
  from which the magnitudes of a run are computed.
\<close>

definition star_mag :: "env \<Rightarrow> star \<Rightarrow> string \<Rightarrow> real" where
  "star_mag e s f = sed_mag e (sed_of s) f"

definition chunk :: "env \<Rightarrow> obs_md \<Rightarrow> star list" where
  "chunk e obs_metadata = TruthCatalogPoint e obs_metadata star_constraint"

definition first_chunk :: "env \<Rightarrow> obs_md list \<Rightarrow> star list" where
  "first_chunk e obs_list = (case obs_list of [] \<Rightarrow> [] | obs_metadata # rest \<Rightarrow> chunk e obs_metadata)"

text \<open>The magnitude array computed from a list of catalog lines (lines 132-138).\<close>

definition ma_of :: "env \<Rightarrow> star list \<Rightarrow> (string \<rightharpoonup> real list)" where
  "ma_of e stars = magArrayForSedList e (SedList stars)"

text \<open>The rows that one visit adds when the magnitudes in use are \<open>ma\<close>.\<close>

definition visit_rows :: "env \<Rightarrow> (string \<rightharpoonup> real list) \<Rightarrow> obs_md \<Rightarrow> df_row list" where
  "visit_rows e ma obs_metadata =
     (case ma (opsim_filter obs_metadata) of
        None \<Rightarrow> []
      | Some mags \<Rightarrow>
          visit_df (chunk e obs_metadata) (opsim_filter obs_metadata) (map flux_of_mag mags)
            (map2 np_divide (map flux_of_mag mags)
               (calcSNR_m5 e mags (opsim_filter obs_metadata) (fiveSigmaDepth obs_metadata)))
            (obsHistID obs_metadata))"

text \<open>
  A library call that a pass after the first may make: a catalog query, or a
  signal-to-noise computation on magnitudes taken from \<open>ma\<close>.
\<close>

fun reuses :: "(string \<rightharpoonup> real list) \<Rightarrow> lib_call \<Rightarrow> bool" where
  "reuses ma (CatalogQuery obs_metadata c) = True"
| "reuses ma (SedListCall stars) = False"
| "reuses ma (MagArrayCall seds) = False"
| "reuses ma (SNRCall mags f m5) = (ma f = Some mags)"

fun is_SedListCall :: "lib_call \<Rightarrow> bool" where
  "is_SedListCall (SedListCall stars) = True"
| "is_SedListCall c = False"

fun is_MagArrayCall :: "lib_call \<Rightarrow> bool" where
  "is_MagArrayCall (MagArrayCall seds) = True"
| "is_MagArrayCall c = False"

section \<open>Concrete inputs for monitor.py\<close>

definition db0 :: dbInterface where
  "db0 =
     \<lparr>objectFromId = (\<lambda>i. if i = 7 then [\<lparr>ra = 53, dec = -28\<rparr>] else []),
      all_fs_visits_from_id =
        (\<lambda>i. if i = 7
              then [\<lparr>fs_filter = ''r'', obs_start = ''2022-01-01 00:00:00'', visit_id = 200,
                     psf_flux = 3, psf_flux_err = 1\<rparr>]
              else []),
      objectFromRaDec =
        (\<lambda>r d tol. if \<bar>r - 53\<bar> \<le> tol \<and> \<bar>d + 28\<bar> \<le> tol then [\<lparr>ra = 53, dec = -28\<rparr>]
                    else if \<bar>r - 10\<bar> \<le> tol \<and> \<bar>d - 10\<bar> \<le> tol
                      then [\<lparr>ra = 10, dec = 10\<rparr>, \<lparr>ra = 10.001, dec = 10\<rparr>]
                    else [])\<rparr>"

definition mjd0 :: "string \<Rightarrow> real option" where
  "mjd0 t = (if t = ''2022-01-01 00:00:00'' then Some 59580 else None)"

section \<open>Concrete inputs for CreateTruthDB.py\<close>

text \<open>
  Three stars and two visits. The field of the first visit holds \<open>star_a\<close> and
  \<open>star_c\<close>, the field of the second holds \<open>star_b\<close> and \<open>star_c\<close>; \<open>star_c\<close> has
  \<open>gmag = 10\<close>.
\<close>

definition star_a :: star where
  "star_a = \<lparr>uniqueId = 1, raJ2000 = 53, decJ2000 = -28, sedFilepath = ''starSED/a.dat'',
             phoSimMagNorm = 22.5, galacticAv = 0.1, gmag = 22.5\<rparr>"

definition star_b :: star where
  "star_b = \<lparr>uniqueId = 2, raJ2000 = 53.6, decJ2000 = -28, sedFilepath = ''starSED/b.dat'',
             phoSimMagNorm = 20, galacticAv = 0.1, gmag = 20\<rparr>"

definition star_c :: star where
  "star_c = \<lparr>uniqueId = 3, raJ2000 = 53.3, decJ2000 = -28, sedFilepath = ''starSED/c.dat'',
             phoSimMagNorm = 10, galacticAv = 0.1, gmag = 10\<rparr>"

definition obs1 :: obs_md where
  "obs1 = \<lparr>obsHistID = 1, opsim_filter = ''r'', fiveSigmaDepth = 24.5,
           pointingRA = 53, pointingDec = -28\<rparr>"

definition obs2 :: obs_md where
  "obs2 = \<lparr>obsHistID = 2, opsim_filter = ''g'', fiveSigmaDepth = 25,
           pointingRA = 53.5, pointingDec = -28\<rparr>"

definition env0 :: env where
  "env0 =
     \<lparr>getObservationMetaData =
        (\<lambda>i fieldRA fieldDec boundLength.
           if i = 1 then [obs1] else if i = 2 then [obs2] else []),
      selectedVisits = [1, 2],
      star_cache_table = [star_a, star_b, star_c],
      in_field =
        (\<lambda>ob s. \<bar>raJ2000 s - pointingRA ob\<bar> \<le> 0.3 \<and> \<bar>decJ2000 s - pointingDec ob\<bar> \<le> 0.3),
      iter_column_names =
        [''uniqueId'', ''raJ2000'', ''decJ2000'', ''sedFilepath'', ''phoSimMagNorm'',
         ''galacticAv''],
      bandpass_names = [''u'', ''g'', ''r'', ''i'', ''z'', ''y''],
      sed_mag = (\<lambda>s f. case s of Sed file mag_norm av \<Rightarrow> mag_norm),
      snr_m5 = (\<lambda>m f m5. m5 - m)\<rparr>"

definition ts0 :: TrueStars where
  "ts0 = \<lparr>star_df_attr = None\<rparr>"

definition row_a1 :: df_row where
  "row_a1 = \<lparr>df_uniqueId = 1, df_ra = 53, df_dec = -28, df_filter = ''r'', true_flux = 1,
             true_flux_error = Finite 0.5, df_obsHistId = 1\<rparr>"

definition row_b2 :: df_row where
  "row_b2 = \<lparr>df_uniqueId = 2, df_ra = 53.6, df_dec = -28, df_filter = ''g'', true_flux = 1,
             true_flux_error = Finite 0.4, df_obsHistId = 2\<rparr>"

definition calls0 :: "lib_call list" where
  "calls0 =
     [CatalogQuery obs1 star_constraint, SedListCall [star_a], MagArrayCall (SedList [star_a]),
      SNRCall [22.5] ''r'' 24.5,
      CatalogQuery obs2 star_constraint, SNRCall [22.5] ''g'' 25]"

section \<open>Runs of build_lightcurve_from_db by object id\<close>

text \<open>
  With an object id that the database knows, the table is assembled and stored. With an
  object id that it does not know both tables are empty, and the conversion of the empty
  timestamp column at line 147 raises before line 150 reads the first object row.
\<close>

lemma build_by_objid_known:
  "build_lightcurve_from_db mjd0 (Some 7) None 0.005 (init db0 None) =
     (None,
      \<lparr>dbConn_lc = db0,
       lightcurve = TableValue
         \<lparr>lc_bandpass = [''lsstr''], lc_obsHistId = [200], lc_mjd = [59580], lc_ra = [53],
          lc_dec = [-28], lc_flux = [3], lc_flux_error = [1], lc_zp = [25], lc_zpsys = [''ab'']\<rparr>,
       db_calls = [ObjectFromId 7, AllFsVisitsFromId 7], printed = []\<rparr>)"
  by (simp add: build_lightcurve_from_db_def fetch_by_objid_def fetch_by_ra_dec_def
      assemble_def Time_mjd_def init_def db0_def mjd0_def Let_def)

lemma build_by_objid_unknown:
  "build_lightcurve_from_db mjd0 (Some 8) None 0.005 (init db0 None) =
     (Some TimeValueError,
      \<lparr>dbConn_lc = db0, lightcurve = NoAttribute,
       db_calls = [ObjectFromId 8, AllFsVisitsFromId 8], printed = []\<rparr>)"
  by (simp add: build_lightcurve_from_db_def fetch_by_objid_def fetch_by_ra_dec_def
      assemble_def Time_mjd_def init_def db0_def mjd0_def Let_def)

section \<open>Properties of monitor.py\<close>

text \<open>
  C3. A call of \<open>build_lightcurve_from_db\<close> that supplies both an object id and a sky
  coordinate, or neither, raises \<open>ValueError\<close> with a message that says what is wrong:
  "Must specify either ..." when neither is given, "Please specify only one ..." when both
  are.
\<close>

theorem c3_invalid_argument:
  assumes "(objid = None) = (ra_dec = None)"
  shows "fst (build_lightcurve_from_db to_mjd objid ra_dec tol self) =
           Some (ValueError (if objid = None then msg_neither else msg_both))"
  using assms by (auto simp: build_lightcurve_from_db_def)

theorem c3_invalid_argument_witness:
  "fst (build_lightcurve_from_db mjd0 None None 0.005 (init db0 None)) =
     Some (ValueError ''Must specify either objid or ra,dec location.'') \<and>
   fst (build_lightcurve_from_db mjd0 (Some 7) (Some (53, -28)) 0.005 (init db0 None)) =
     Some (ValueError ''Please specify only one of objid or ra,dec location.'')"
  using c3_invalid_argument [of None None mjd0 "0.005" "init db0 None"]
        c3_invalid_argument [of "Some 7" "Some (53, -28)" mjd0 "0.005" "init db0 None"]
  by (simp add: msg_neither_def msg_both_def)

text \<open>
  C4. A call with a sky coordinate that matches exactly one object does not assemble a
  table: no branch of the coordinate path binds \<open>fs_info\<close>, so the read of \<open>fs_info\<close> at
  line 144 raises \<open>UnboundLocalError\<close> after the one database query, and
  \<open>self.lightcurve\<close> stays as it was.
\<close>

theorem c4_coordinate_path_unbound_fs_info:
  "build_lightcurve_from_db mjd0 None (Some (53, -28)) 0.005 (init db0 None) =
     (Some (UnboundLocalError ''fs_info''),
      \<lparr>dbConn_lc = db0, lightcurve = NoAttribute,
       db_calls = [ObjectFromRaDec 53 (-28) 0.005], printed = []\<rparr>)"
  by (simp add: build_lightcurve_from_db_def fetch_by_objid_def fetch_by_ra_dec_def
      assemble_def init_def db0_def Let_def)

text \<open>
  C5. A call with a sky coordinate that matches two objects prints the matches and raises
  nothing for the ambiguity, but the call as a whole still ends in \<open>UnboundLocalError\<close>
  at line 144, for the reason given under C4.
\<close>

theorem c5_ambiguous_match_still_raises:
  "build_lightcurve_from_db mjd0 None (Some (10, 10)) 0.005 (init db0 None) =
     (Some (UnboundLocalError ''fs_info''),
      \<lparr>dbConn_lc = db0, lightcurve = NoAttribute,
       db_calls = [ObjectFromRaDec 10 10 0.005],
       printed = [[\<lparr>ra = 10, dec = 10\<rparr>, \<lparr>ra = 10.001, dec = 10\<rparr>]]\<rparr>)"
  by (simp add: build_lightcurve_from_db_def fetch_by_objid_def fetch_by_ra_dec_def
      assemble_def init_def db0_def Let_def)

text \<open>
  C6. An object constructed without \<open>fp_table_dir\<close> (the default, used with the
  database) has no attribute \<open>lightcurve\<close>; \<open>visualize_lightcurve\<close> on it raises
  \<open>AttributeError\<close> at the test \<open>self.lightcurve is None\<close>, not the "No lightcurve
  yet" \<open>ValueError\<close>.
\<close>

theorem c6_visualize_without_attribute:
  "visualize_lightcurve (\<lambda>t. length (lc_flux t)) (init db0 None) =
     Inl (AttributeError ''lightcurve'')"
  by (simp add: visualize_lightcurve_def init_def)

text \<open>
  C10. Whenever \<open>build_lightcurve_from_db\<close> raises one of its two invalid-argument
  errors, the object after the call is the object before it: no database query has been
  issued and \<open>self.lightcurve\<close> is unchanged.
\<close>

theorem c10_invalid_argument_no_effect:
  assumes "fst (build_lightcurve_from_db to_mjd objid ra_dec tol self) = Some (ValueError m)"
    and "m = msg_neither \<or> m = msg_both"
  shows "snd (build_lightcurve_from_db to_mjd objid ra_dec tol self) = self \<and>
         db_calls (snd (build_lightcurve_from_db to_mjd objid ra_dec tol self)) = db_calls self \<and>
         lightcurve (snd (build_lightcurve_from_db to_mjd objid ra_dec tol self)) = lightcurve self"
proof (cases "(objid = None) = (ra_dec = None)")
  case True
  then show ?thesis by (auto simp: build_lightcurve_from_db_def)
next
  case False
  have "m \<noteq> msg_no_match"
    using assms(2) by (auto simp: msg_neither_def msg_both_def msg_no_match_def)
  with False assms(1) show ?thesis
    by (auto simp: build_lightcurve_from_db_def fetch_by_objid_def fetch_by_ra_dec_def
        assemble_def Time_mjd_def Let_def
        split: option.splits prod.splits sum.splits list.splits if_splits)
qed

theorem c10_invalid_argument_no_effect_witness:
  "fst (build_lightcurve_from_db mjd0 (Some 7) (Some (53, -28)) 0.005
          ((init db0 (Some ''fp''))\<lparr>db_calls := [ObjectFromId 3]\<rparr>)) = Some (ValueError msg_both) \<and>
   snd (build_lightcurve_from_db mjd0 (Some 7) (Some (53, -28)) 0.005
          ((init db0 (Some ''fp''))\<lparr>db_calls := [ObjectFromId 3]\<rparr>)) =
     \<lparr>dbConn_lc = db0, lightcurve = PyNone, db_calls = [ObjectFromId 3], printed = []\<rparr>"
proof -
  have h: "fst (build_lightcurve_from_db mjd0 (Some 7) (Some (53, -28)) 0.005
          ((init db0 (Some ''fp''))\<lparr>db_calls := [ObjectFromId 3]\<rparr>)) = Some (ValueError msg_both)"
    by (simp add: build_lightcurve_from_db_def)
  show ?thesis
    using h c10_invalid_argument_no_effect [OF h] by (simp add: init_def)
qed

section \<open>Facts about the loop of get_true_stars\<close>

text \<open>
  Once the magnitudes are loaded, a pass of the loop keeps them, makes no call that
  computes SEDs or magnitudes, and on success appends the rows of the visit.
\<close>

lemma visit_step_loaded:
  assumes "seds_loaded v" and "mag_array v = Some ma"
    and "visit_step e ob v = (out, v')"
  shows "seds_loaded v' \<and> mag_array v' = Some ma \<and>
         (\<exists>new. lib_calls v' = lib_calls v @ new \<and> (\<forall>c\<in>set new. reuses ma c)) \<and>
         (out = None \<longrightarrow> star_df v' = star_df v @ visit_rows e ma ob \<and>
            (\<exists>mags. ma (opsim_filter ob) = Some mags \<and> length (chunk e ob) = length mags))"
  using assms
  by (auto simp: visit_step_def Let_def visit_rows_def chunk_def split: option.splits if_splits)

lemma visit_step_start:
  assumes "visit_step e ob loop_start = (out, v')"
  shows "seds_loaded v' \<and> mag_array v' = Some (ma_of e (chunk e ob)) \<and>
         (\<exists>new. lib_calls v' =
              [CatalogQuery ob star_constraint, SedListCall (chunk e ob),
               MagArrayCall (SedList (chunk e ob))] @ new \<and>
            (\<forall>c\<in>set new. reuses (ma_of e (chunk e ob)) c)) \<and>
         (out = None \<longrightarrow> star_df v' = visit_rows e (ma_of e (chunk e ob)) ob \<and>
            (\<exists>mags. ma_of e (chunk e ob) (opsim_filter ob) = Some mags \<and> length (chunk e ob) = length mags))"
  using assms
  by (auto simp: visit_step_def Let_def visit_rows_def chunk_def loop_start_def ma_of_def
      split: option.splits if_splits)

lemma visit_loop_loaded:
  assumes "seds_loaded v" and "mag_array v = Some ma"
    and "visit_loop e obs v = (out, v')"
  shows "seds_loaded v' \<and> mag_array v' = Some ma \<and>
         (\<exists>new. lib_calls v' = lib_calls v @ new \<and> (\<forall>c\<in>set new. reuses ma c)) \<and>
         (out = None \<longrightarrow> star_df v' = star_df v @ concat (map (visit_rows e ma) obs) \<and>
            (\<forall>ob\<in>set obs. \<exists>mags. ma (opsim_filter ob) = Some mags \<and> length (chunk e ob) = length mags))"
  using assms
proof (induction obs arbitrary: v)
  case Nil
  then show ?case by simp
next
  case (Cons ob obs)
  obtain o1 v1 where s: "visit_step e ob v = (o1, v1)" by (cases "visit_step e ob v")
  note st = visit_step_loaded [OF Cons.prems(1) Cons.prems(2) s]
  show ?case
  proof (cases o1)
    case (Some err)
    with s Cons.prems(3) have "out = Some err" "v' = v1" by auto
    with st show ?thesis by simp
  next
    case None
    with s Cons.prems(3) have l: "visit_loop e obs v1 = (out, v')" by simp
    from st have a: "seds_loaded v1" and b: "mag_array v1 = Some ma" by auto
    note ih = Cons.IH [OF a b l]
    from st obtain n1 where n1: "lib_calls v1 = lib_calls v @ n1" "\<forall>c\<in>set n1. reuses ma c" by auto
    from ih obtain n2 where n2: "lib_calls v' = lib_calls v1 @ n2" "\<forall>c\<in>set n2. reuses ma c" by auto
    have calls: "\<exists>new. lib_calls v' = lib_calls v @ new \<and> (\<forall>c\<in>set new. reuses ma c)"
      using n1 n2 by (intro exI [of _ "n1 @ n2"]) auto
    from st None have r1: "star_df v1 = star_df v @ visit_rows e ma ob"
      and len1: "\<exists>mags. ma (opsim_filter ob) = Some mags \<and> length (chunk e ob) = length mags" by auto
    show ?thesis using ih calls r1 len1 by auto
  qed
qed

lemma visit_loop_start:
  assumes "visit_loop e obs loop_start = (out, v')"
  shows "(obs = [] \<and> lib_calls v' = [] \<and> star_df v' = []) \<or>
         (\<exists>o0 rest new. obs = o0 # rest \<and>
            lib_calls v' =
              [CatalogQuery o0 star_constraint, SedListCall (chunk e o0),
               MagArrayCall (SedList (chunk e o0))] @ new \<and>
            (\<forall>c\<in>set new. reuses (ma_of e (chunk e o0)) c) \<and>
            (out = None \<longrightarrow>
               star_df v' = concat (map (visit_rows e (ma_of e (chunk e o0))) obs) \<and>
               (\<forall>ob\<in>set obs. \<exists>mags. ma_of e (chunk e o0) (opsim_filter ob) = Some mags \<and>
                  length (chunk e ob) = length mags)))"
proof (cases obs)
  case Nil
  with assms show ?thesis by (auto simp: loop_start_def)
next
  case (Cons o0 rest)
  let ?ma = "ma_of e (chunk e o0)"
  obtain o1 v1 where s: "visit_step e o0 loop_start = (o1, v1)"
    by (cases "visit_step e o0 loop_start")
  note st = visit_step_start [OF s]
  from st obtain n1 where n1: "lib_calls v1 =
      [CatalogQuery o0 star_constraint, SedListCall (chunk e o0),
       MagArrayCall (SedList (chunk e o0))] @ n1" "\<forall>c\<in>set n1. reuses ?ma c" by auto
  show ?thesis
  proof (cases o1)
    case (Some err)
    with s assms Cons have "out = Some err" "v' = v1" by auto
    with n1 Cons show ?thesis by auto
  next
    case None
    with s assms Cons have l: "visit_loop e rest v1 = (out, v')" by simp
    from st have a: "seds_loaded v1" and b: "mag_array v1 = Some ?ma" by auto
    note lp = visit_loop_loaded [OF a b l]
    from lp obtain n2 where n2: "lib_calls v' = lib_calls v1 @ n2" "\<forall>c\<in>set n2. reuses ?ma c"
      by auto
    have calls: "lib_calls v' =
        [CatalogQuery o0 star_constraint, SedListCall (chunk e o0),
         MagArrayCall (SedList (chunk e o0))] @ (n1 @ n2) \<and> (\<forall>c\<in>set (n1 @ n2). reuses ?ma c)"
      using n1 n2 by auto
    from st None have r1: "star_df v1 = visit_rows e ?ma o0"
      and len1: "\<exists>mags. ?ma (opsim_filter o0) = Some mags \<and> length (chunk e o0) = length mags"
      by auto
    have rows: "out = None \<longrightarrow>
        star_df v' = concat (map (visit_rows e ?ma) obs) \<and>
        (\<forall>ob\<in>set obs. \<exists>mags. ?ma (opsim_filter ob) = Some mags \<and> length (chunk e ob) = length mags)"
      using lp r1 len1 Cons by auto
    show ?thesis using Cons calls rows by blast
  qed
qed

lemma ma_of_Some:
  "ma_of e ch0 f = Some mags \<Longrightarrow> mags = map (\<lambda>s. star_mag e s f) ch0"
  by (auto simp: ma_of_def magArrayForSedList_def SedList_def star_mag_def split: if_splits)

lemma visit_df_cols:
  "map h (visit_df ch f (map g xs) (map2 np_divide (map g xs) (map k xs)) i) =
   map2 (\<lambda>s x. h \<lparr>df_uniqueId = uniqueId s, df_ra = raJ2000 s, df_dec = decJ2000 s,
             df_filter = f, true_flux = g x, true_flux_error = np_divide (g x) (k x),
             df_obsHistId = i\<rparr>) ch xs"
  unfolding visit_df_def
  by (induction ch arbitrary: xs) (auto simp: neq_Nil_conv zip_Cons1 split: list.splits)

lemma visit_rows_cols:
  assumes "ma_of e ch0 (opsim_filter ob) = Some mags"
  shows "map h (visit_rows e (ma_of e ch0) ob) =
         map2 (\<lambda>s s0. h \<lparr>df_uniqueId = uniqueId s, df_ra = raJ2000 s, df_dec = decJ2000 s,
                  df_filter = opsim_filter ob,
                  true_flux = flux_of_mag (star_mag e s0 (opsim_filter ob)),
                  true_flux_error =
                    np_divide (flux_of_mag (star_mag e s0 (opsim_filter ob)))
                      (snr_m5 e (star_mag e s0 (opsim_filter ob)) (opsim_filter ob)
                         (fiveSigmaDepth ob)),
                  df_obsHistId = obsHistID ob\<rparr>) (chunk e ob) ch0"
proof -
  have m: "mags = map (\<lambda>s. star_mag e s (opsim_filter ob)) ch0"
    using assms by (rule ma_of_Some)
  show ?thesis
    using visit_df_cols [of h "chunk e ob" "opsim_filter ob"
        "\<lambda>s0. flux_of_mag (star_mag e s0 (opsim_filter ob))" ch0
        "\<lambda>s0. snr_m5 e (star_mag e s0 (opsim_filter ob)) (opsim_filter ob) (fiveSigmaDepth ob)"
        "obsHistID ob"]
    by (simp add: visit_rows_def assms m calcSNR_m5_def comp_def)
qed

lemma ma_of_length:
  "ma_of e ch0 f = Some mags \<Longrightarrow> length mags = length ch0"
  by (drule ma_of_Some) simp

lemma get_true_stars_run:
  assumes "obs_metadata_list e (visit_ids e arg) = Inr obs"
    and "get_true_stars e arg self = (out, self', calls)"
  shows "\<exists>v'. visit_loop e obs loop_start = (out, v') \<and> calls = lib_calls v' \<and>
           (out = None \<longrightarrow> star_df_attr self' = Some (star_df v'))"
  using assms
  by (auto simp: get_true_stars_def split: prod.splits option.splits)

lemma get_true_stars_no_visits:
  assumes "obs_metadata_list e (visit_ids e arg) = Inl err"
    and "get_true_stars e arg self = (out, self', calls)"
  shows "calls = [] \<and> out = Some err"
  using assms by (auto simp: get_true_stars_def)

text \<open>A successful run, in terms of the first visit's catalog.\<close>

lemma get_true_stars_rows:
  assumes obs: "obs_metadata_list e (visit_ids e arg) = Inr obs"
    and run: "get_true_stars e arg self = (None, self', calls)"
  shows "star_df_attr self' =
           Some (concat (map (visit_rows e (ma_of e (first_chunk e obs))) obs)) \<and>
         (\<forall>ob\<in>set obs. \<exists>mags. ma_of e (first_chunk e obs) (opsim_filter ob) = Some mags \<and>
            length (chunk e ob) = length (first_chunk e obs))"
proof -
  from get_true_stars_run [OF obs run] obtain v' where
    l: "visit_loop e obs loop_start = (None, v')" and s: "star_df_attr self' = Some (star_df v')"
    by auto
  from visit_loop_start [OF l] show ?thesis
  proof
    assume "obs = [] \<and> lib_calls v' = [] \<and> star_df v' = []"
    with s show ?thesis by simp
  next
    assume "\<exists>o0 rest new. obs = o0 # rest \<and>
            lib_calls v' =
              [CatalogQuery o0 star_constraint, SedListCall (chunk e o0),
               MagArrayCall (SedList (chunk e o0))] @ new \<and>
            (\<forall>c\<in>set new. reuses (ma_of e (chunk e o0)) c) \<and>
            (None = None \<longrightarrow>
               star_df v' = concat (map (visit_rows e (ma_of e (chunk e o0))) obs) \<and>
               (\<forall>ob\<in>set obs. \<exists>mags. ma_of e (chunk e o0) (opsim_filter ob) = Some mags \<and>
                  length (chunk e ob) = length mags))"
    then obtain o0 rest where o: "obs = o0 # rest"
      and r: "star_df v' = concat (map (visit_rows e (ma_of e (chunk e o0))) obs)"
      and len: "\<forall>ob\<in>set obs. \<exists>mags. ma_of e (chunk e o0) (opsim_filter ob) = Some mags \<and>
                  length (chunk e ob) = length mags"
      by auto
    have fc: "first_chunk e obs = chunk e o0" using o by (simp add: first_chunk_def)
    from len have "\<forall>ob\<in>set obs. \<exists>mags. ma_of e (chunk e o0) (opsim_filter ob) = Some mags \<and>
                  length (chunk e ob) = length (chunk e o0)"
      by (metis ma_of_length)
    with r s fc show ?thesis by simp
  qed
qed

lemma concat_rows_cols:
  assumes "\<forall>ob\<in>set obs. \<exists>mags. ma_of e ch0 (opsim_filter ob) = Some mags"
  shows "map h (concat (map (visit_rows e (ma_of e ch0)) obs)) =
         concat (map (\<lambda>ob. map2 (\<lambda>s s0. h \<lparr>df_uniqueId = uniqueId s, df_ra = raJ2000 s,
                  df_dec = decJ2000 s, df_filter = opsim_filter ob,
                  true_flux = flux_of_mag (star_mag e s0 (opsim_filter ob)),
                  true_flux_error =
                    np_divide (flux_of_mag (star_mag e s0 (opsim_filter ob)))
                      (snr_m5 e (star_mag e s0 (opsim_filter ob)) (opsim_filter ob)
                         (fiveSigmaDepth ob)),
                  df_obsHistId = obsHistID ob\<rparr>) (chunk e ob) ch0) obs)"
  using assms
proof (induction obs)
  case Nil
  then show ?case by simp
next
  case (Cons ob obs)
  from Cons.prems obtain mags where "ma_of e ch0 (opsim_filter ob) = Some mags" by auto
  from visit_rows_cols [OF this, of h] Cons show ?case by simp
qed

lemma flux_of_mag_less_iff: "flux_of_mag a < flux_of_mag b \<longleftrightarrow> b < a"
  by (simp add: flux_of_mag_def)

lemma chunk_obs1: "chunk env0 obs1 = [star_a]"
  by (simp add: chunk_def TruthCatalogPoint_def env0_def star_constraint_def star_column_def
      star_a_def star_b_def star_c_def obs1_def)

lemma chunk_obs2: "chunk env0 obs2 = [star_b]"
  by (simp add: chunk_def TruthCatalogPoint_def env0_def star_constraint_def star_column_def
      star_a_def star_b_def star_c_def obs2_def)

lemma flux_of_mag_zero_point: "flux_of_mag 22.5 = 1"
  by (simp add: flux_of_mag_def)

lemma flux_of_mag_20: "flux_of_mag 20 = 10"
  by (simp add: flux_of_mag_def)

lemma obs_list0: "obs_metadata_list env0 (visit_ids env0 (Some [1, 2])) = Inr [obs1, obs2]"
  by (simp add: visit_ids_def env0_def)

lemma ma_of_star_a:
  "ma_of env0 [star_a] f =
     (if f \<in> {''u'', ''g'', ''r'', ''i'', ''z'', ''y''} then Some [22.5] else None)"
  by (simp add: ma_of_def magArrayForSedList_def SedList_def sed_of_def env0_def star_a_def)

lemma visit_step_obs1:
  "visit_step env0 obs1 loop_start =
     (None,
      \<lparr>column_names = Some (iter_column_names env0), seds_loaded = True,
       mag_array = Some (ma_of env0 [star_a]), star_df = [row_a1],
       lib_calls = [CatalogQuery obs1 star_constraint, SedListCall [star_a],
                    MagArrayCall (SedList [star_a]), SNRCall [22.5] ''r'' 24.5]\<rparr>)"
  unfolding visit_step_def chunk_obs1 [unfolded chunk_def] Let_def loop_start_def
  by (simp add: ma_of_def [symmetric] ma_of_star_a)
     (simp add: obs1_def calcSNR_m5_def visit_df_def flux_of_mag_def np_divide_def
       row_a1_def star_a_def env0_def)

lemma visit_step_obs2:
  "visit_step env0 obs2
     \<lparr>column_names = Some (iter_column_names env0), seds_loaded = True,
      mag_array = Some (ma_of env0 [star_a]), star_df = [row_a1],
      lib_calls = [CatalogQuery obs1 star_constraint, SedListCall [star_a],
                   MagArrayCall (SedList [star_a]), SNRCall [22.5] ''r'' 24.5]\<rparr> =
     (None,
      \<lparr>column_names = Some (iter_column_names env0), seds_loaded = True,
       mag_array = Some (ma_of env0 [star_a]), star_df = [row_a1, row_b2],
       lib_calls = calls0\<rparr>)"
  unfolding visit_step_def chunk_obs2 [unfolded chunk_def] Let_def
  by (simp add: ma_of_star_a)
     (simp add: obs2_def calcSNR_m5_def visit_df_def flux_of_mag_def np_divide_def
       row_b2_def star_b_def env0_def calls0_def)

lemma run0:
  "get_true_stars env0 (Some [1, 2]) ts0 =
     (None, \<lparr>star_df_attr = Some [row_a1, row_b2]\<rparr>, calls0)"
  by (simp only: get_true_stars_def obs_list0 sum.case visit_loop.simps visit_step_obs1
      visit_step_obs2 prod.case option.case ts0_def) simp

lemma reuses_not_computed: "reuses ma c \<Longrightarrow> \<not> is_SedListCall c \<and> \<not> is_MagArrayCall c"
  by (cases c) auto

lemma visit_step_queries:
  assumes "visit_step e ob v = (out, v')"
    and "CatalogQuery ob' k \<in> set (lib_calls v')"
  shows "CatalogQuery ob' k \<in> set (lib_calls v) \<or> k = star_constraint"
  using assms
  by (auto simp: visit_step_def Let_def split: option.splits if_splits)

lemma visit_loop_queries:
  assumes "visit_loop e obs v = (out, v')"
    and "CatalogQuery ob' k \<in> set (lib_calls v')"
  shows "CatalogQuery ob' k \<in> set (lib_calls v) \<or> k = star_constraint"
  using assms
proof (induction obs arbitrary: v)
  case Nil
  then show ?case by simp
next
  case (Cons ob obs)
  obtain o1 v1 where s: "visit_step e ob v = (o1, v1)" by (cases "visit_step e ob v")
  show ?case
  proof (cases o1)
    case (Some err)
    with s Cons.prems(1) have "v' = v1" by simp
    with s Cons.prems(2) show ?thesis by (auto dest: visit_step_queries)
  next
    case None
    with s Cons.prems(1) have "visit_loop e obs v1 = (out, v')" by simp
    from Cons.IH [OF this Cons.prems(2)] s show ?thesis by (auto dest: visit_step_queries)
  qed
qed

lemma get_true_stars_queries:
  assumes "get_true_stars e arg self = (out, self', calls)"
    and "CatalogQuery ob k \<in> set calls"
  shows "k = star_constraint"
proof (cases "obs_metadata_list e (visit_ids e arg)")
  case (Inl err)
  from get_true_stars_no_visits [OF Inl assms(1)] assms(2) show ?thesis by simp
next
  case (Inr obs)
  from get_true_stars_run [OF Inr assms(1)] obtain v' where
    "visit_loop e obs loop_start = (out, v')" "calls = lib_calls v'" by auto
  with visit_loop_queries [of e obs loop_start out v' ob k] assms(2) show ?thesis
    by (simp add: loop_start_def)
qed



text \<open>
  The flux written by a run that returns: the row for line \<open>i\<close> of a visit carries that
  line's star id, the visit's id and the flux of the magnitude, in the visit's bandpass, of
  line \<open>i\<close> of the first visit's catalog; all catalogs have the length of the first.
\<close>

lemma true_flux_rows:
  assumes "obs_metadata_list e (visit_ids e for_obsHistIds) = Inr obs"
    and "get_true_stars e for_obsHistIds self = (None, self', calls)"
  shows "\<exists>df. star_df_attr self' = Some df \<and>
           map (\<lambda>r. (df_uniqueId r, df_obsHistId r, true_flux r)) df =
             concat (map (\<lambda>ob. map2 (\<lambda>s s0. (uniqueId s, obsHistID ob,
                            10 powr (- 0.4 * (star_mag e s0 (opsim_filter ob) - 22.5))))
                       (chunk e ob) (first_chunk e obs)) obs) \<and>
           (\<forall>ob\<in>set obs. length (chunk e ob) = length (first_chunk e obs))"
proof -
  note r = get_true_stars_rows [OF assms]
  then have "\<forall>ob\<in>set obs. \<exists>mags. ma_of e (first_chunk e obs) (opsim_filter ob) = Some mags"
    by blast
  from concat_rows_cols [OF this, of "\<lambda>r. (df_uniqueId r, df_obsHistId r, true_flux r)"] r
  show ?thesis by (simp add: flux_of_mag_def)
qed

text \<open>
  Under the premise of the comment at lines 129-130, that every visit's catalog is the
  catalog of the first visit, the flux of every row is the flux of its own star's
  magnitude in the visit's bandpass.
\<close>

lemma true_flux_fixed_catalog:
  assumes "obs_metadata_list e (visit_ids e for_obsHistIds) = Inr obs"
    and "get_true_stars e for_obsHistIds self = (None, self', calls)"
    and "\<forall>ob\<in>set obs. chunk e ob = first_chunk e obs"
  shows "\<exists>df. star_df_attr self' = Some df \<and>
           map (\<lambda>r. (df_uniqueId r, df_obsHistId r, true_flux r)) df =
             concat (map (\<lambda>ob. map (\<lambda>s. (uniqueId s, obsHistID ob,
                            10 powr (- 0.4 * (star_mag e s (opsim_filter ob) - 22.5))))
                       (chunk e ob)) obs)"
proof -
  let ?F = "\<lambda>ob. map2 (\<lambda>s s0. (uniqueId s, obsHistID ob,
                 10 powr (- 0.4 * (star_mag e s0 (opsim_filter ob) - 22.5))))
            (chunk e ob) (first_chunk e obs)"
  let ?G = "\<lambda>ob. map (\<lambda>s. (uniqueId s, obsHistID ob,
                 10 powr (- 0.4 * (star_mag e s (opsim_filter ob) - 22.5))))
            (chunk e ob)"
  have eq: "map ?F obs = map ?G obs"
    using assms(3) by (intro map_cong refl) (simp add: zip_same_conv_map)
  from true_flux_rows [OF assms(1) assms(2)] obtain df where
    d: "star_df_attr self' = Some df"
    and m: "map (\<lambda>r. (df_uniqueId r, df_obsHistId r, true_flux r)) df = concat (map ?F obs)"
    by blast
  from m have "map (\<lambda>r. (df_uniqueId r, df_obsHistId r, true_flux r)) df = concat (map ?G obs)"
    by (simp only: eq)
  with d show ?thesis by blast
qed

section \<open>Properties of CreateTruthDB.py\<close>

text \<open>
  C1. The flux of every row is computed from the magnitude array of the first visit
  (\<open>true_flux_rows\<close>), which the comment at lines 129-130 takes to be the same for every
  visit. Where every visit's catalog is the first visit's, each row carries the flux
  \<open>10 powr (-0.4 * (m - 22.5))\<close> of its own star's magnitude \<open>m\<close> in the visit's
  bandpass (\<open>true_flux_fixed_catalog\<close>). The code does not check this: in the run below
  the first visit sees \<open>star_a\<close> (magnitude 22.5) and the second sees \<open>star_b\<close>
  (magnitude 20), and the row written for \<open>star_b\<close> in the second visit has the flux 1
  of \<open>star_a\<close>, where the formula on the magnitude of \<open>star_b\<close> gives 10.
\<close>

theorem c1_flux_of_other_star:
  "get_true_stars env0 (Some [1, 2]) ts0 =
     (None, \<lparr>star_df_attr = Some [row_a1, row_b2]\<rparr>, calls0) \<and>
   TruthCatalogPoint env0 obs2 star_constraint = [star_b] \<and>
   df_uniqueId row_b2 = uniqueId star_b \<and>
   df_obsHistId row_b2 = obsHistID obs2 \<and>
   true_flux row_b2 = 1 \<and>
   10 powr (- 0.4 * (star_mag env0 star_b (opsim_filter obs2) - 22.5)) = 10"
  using run0 chunk_obs2
  by (simp add: chunk_def row_b2_def star_b_def obs2_def star_mag_def sed_of_def env0_def)



text \<open>
  C7. \<open>write_to_db\<close> called with the table name \<open>'truth'\<close> on an empty store writes
  the table \<open>'stars'\<close>: reading \<open>'truth'\<close> back finds no table, and the rows are under
  \<open>'stars'\<close>.
\<close>

theorem c7_table_name_ignored:
  "write_to_db \<lparr>star_df_attr = Some [row_a1, row_b2]\<rparr> ''truth.db'' ''truth'' Map.empty =
     Inr [''truth.db'' \<mapsto> [''stars'' \<mapsto> [row_a1, row_b2]]] \<and>
   read_sql_table ''truth'' ''truth.db'' [''truth.db'' \<mapsto> [''stars'' \<mapsto> [row_a1, row_b2]]] =
     None \<and>
   read_sql_table ''stars'' ''truth.db'' [''truth.db'' \<mapsto> [''stars'' \<mapsto> [row_a1, row_b2]]] =
     Some [row_a1, row_b2]"
  by (simp add: write_to_db_def to_sql_def open_db_def read_sql_table_def)

text \<open>
  C8, as stated, fails. The constraint \<open>'gmag > 11'\<close> keeps the stars whose magnitude is
  above 11, and a larger magnitude is a smaller flux: the query of the first visit returns
  \<open>star_a\<close>, which is fainter than magnitude 11, and leaves out \<open>star_c\<close>, which
  lies in the field and is brighter than magnitude 11.
\<close>

theorem c8_fainter_star_returned:
  "TruthCatalogPoint env0 obs1 star_constraint = [star_a] \<and>
   flux_of_mag (gmag star_a) < flux_of_mag 11 \<and>
   in_field env0 obs1 star_c \<and>
   flux_of_mag 11 < flux_of_mag (gmag star_c)"
  using chunk_obs1
  by (simp add: chunk_def flux_of_mag_less_iff star_a_def star_c_def env0_def obs1_def)

text \<open>
  C8, amended. Every catalog query that a run of \<open>get_true_stars\<close> issues carries the
  constraint \<open>gmag > 11\<close>, so that every star returned has a \<open>gmag\<close> above the fixed
  cutoff 11: it is fainter than the cutoff, its flux is below the flux of magnitude 11.
\<close>

theorem c8_query_constraint:
  assumes "get_true_stars e for_obsHistIds self = (out, self', calls)"
    and "CatalogQuery ob k \<in> set calls"
    and "s \<in> set (TruthCatalogPoint e ob k)"
  shows "k = ColumnGt ''gmag'' 11 \<and> 11 < gmag s \<and> flux_of_mag (gmag s) < flux_of_mag 11"
proof -
  have k: "k = ColumnGt ''gmag'' 11"
    using get_true_stars_queries [OF assms(1) assms(2)] by (simp add: star_constraint_def)
  with assms(3) have "11 < gmag s"
    by (simp add: TruthCatalogPoint_def star_column_def)
  with k show ?thesis by (simp add: flux_of_mag_less_iff)
qed

theorem c8_query_constraint_witness:
  "CatalogQuery obs1 star_constraint \<in> set calls0 \<and>
   star_a \<in> set (TruthCatalogPoint env0 obs1 star_constraint) \<and>
   star_constraint = ColumnGt ''gmag'' 11 \<and> 11 < gmag star_a \<and>
   flux_of_mag (gmag star_a) < flux_of_mag 11"
proof -
  have q: "CatalogQuery obs1 star_constraint \<in> set calls0"
    by (simp add: calls0_def)
  have s: "star_a \<in> set (TruthCatalogPoint env0 obs1 star_constraint)"
    using chunk_obs1 by (simp add: chunk_def)
  show ?thesis
    using q s c8_query_constraint [OF run0 q s] by simp
qed

text \<open>
  C9. In one call of \<open>get_true_stars\<close> with at least one visit, the SED list and the
  magnitude array are each computed exactly once, in the pass of the first visit, from its
  catalog, right after its catalog query. Every later library call, in that pass and in
  the passes of all later visits, is a catalog query or a signal-to-noise computation on
  magnitudes taken from that same array, and when the call returns, the rows of every
  visit are built from that array. A call with no visit makes no library call at all.
\<close>

theorem c9_magnitudes_computed_once:
  assumes "get_true_stars e for_obsHistIds self = (out, self', calls)"
  shows "(case obs_metadata_list e (visit_ids e for_obsHistIds) of
            Inr (o0 # rest) \<Rightarrow>
              (\<exists>later.
                 calls = [CatalogQuery o0 star_constraint, SedListCall (chunk e o0),
                          MagArrayCall (SedList (chunk e o0))] @ later \<and>
                 (\<forall>c\<in>set later. reuses (ma_of e (chunk e o0)) c) \<and>
                 length (filter is_SedListCall calls) = 1 \<and>
                 length (filter is_MagArrayCall calls) = 1 \<and>
                 (out = None \<longrightarrow>
                    star_df_attr self' =
                      Some (concat (map (visit_rows e (ma_of e (chunk e o0))) (o0 # rest)))))
          | Inr [] \<Rightarrow> calls = [] \<and> out = None \<and> star_df_attr self' = Some []
          | Inl err \<Rightarrow> calls = [] \<and> out = Some err)"
proof (cases "obs_metadata_list e (visit_ids e for_obsHistIds)")
  case (Inl err)
  from get_true_stars_no_visits [OF Inl assms] Inl show ?thesis by simp
next
  case (Inr obs)
  from get_true_stars_run [OF Inr assms] obtain v' where
    l: "visit_loop e obs loop_start = (out, v')" and c: "calls = lib_calls v'"
    and s: "out = None \<longrightarrow> star_df_attr self' = Some (star_df v')" by auto
  show ?thesis
  proof (cases obs)
    case Nil
    with l c s Inr show ?thesis by (auto simp: loop_start_def)
  next
    case (Cons o0 rest)
    with visit_loop_start [OF l] obtain later where
      cs: "lib_calls v' =
              [CatalogQuery o0 star_constraint, SedListCall (chunk e o0),
               MagArrayCall (SedList (chunk e o0))] @ later"
      and re: "\<forall>c\<in>set later. reuses (ma_of e (chunk e o0)) c"
      and rows: "out = None \<longrightarrow>
               star_df v' = concat (map (visit_rows e (ma_of e (chunk e o0))) obs)"
      by auto
    from re have f1: "filter is_SedListCall later = []" and f2: "filter is_MagArrayCall later = []"
      by (auto simp: filter_empty_conv dest: reuses_not_computed)
    have n1: "length (filter is_SedListCall calls) = 1"
      and n2: "length (filter is_MagArrayCall calls) = 1"
      using c cs f1 f2 by simp_all
    have "calls = [CatalogQuery o0 star_constraint, SedListCall (chunk e o0),
                   MagArrayCall (SedList (chunk e o0))] @ later \<and>
          (\<forall>c\<in>set later. reuses (ma_of e (chunk e o0)) c) \<and>
          length (filter is_SedListCall calls) = 1 \<and>
          length (filter is_MagArrayCall calls) = 1 \<and>
          (out = None \<longrightarrow>
             star_df_attr self' =
               Some (concat (map (visit_rows e (ma_of e (chunk e o0))) (o0 # rest))))"
      using Cons c cs re rows s n1 n2 by simp
    then show ?thesis using Inr Cons by auto
  qed
qed

theorem c9_magnitudes_computed_once_witness:
  "get_true_stars env0 (Some [1, 2]) ts0 =
     (None, \<lparr>star_df_attr = Some [row_a1, row_b2]\<rparr>, calls0) \<and>
   obs_metadata_list env0 (visit_ids env0 (Some [1, 2])) = Inr [obs1, obs2] \<and>
   calls0 =
     [CatalogQuery obs1 star_constraint, SedListCall (chunk env0 obs1),
      MagArrayCall (SedList (chunk env0 obs1)),
      SNRCall [22.5] ''r'' 24.5, CatalogQuery obs2 star_constraint, SNRCall [22.5] ''g'' 25] \<and>
   reuses (ma_of env0 (chunk env0 obs1)) (SNRCall [22.5] ''r'' 24.5) \<and>
   reuses (ma_of env0 (chunk env0 obs1)) (CatalogQuery obs2 star_constraint) \<and>
   reuses (ma_of env0 (chunk env0 obs1)) (SNRCall [22.5] ''g'' 25) \<and>
   length (filter is_SedListCall calls0) = 1 \<and>
   length (filter is_MagArrayCall calls0) = 1 \<and>
   [row_a1, row_b2] =
     concat (map (visit_rows env0 (ma_of env0 (chunk env0 obs1))) [obs1, obs2])"
  using run0 obs_list0 c9_magnitudes_computed_once [OF run0]
  by (auto simp: obs_list0 chunk_obs1 calls0_def)

end
